theory Spec2Isabelle
  imports Complex_Main "HOL-Library.Multiset"
begin

section \<open>JavaScript numbers\<close>

text \<open>
  Every quantity of \<^verbatim>\<open>CuttingPage.tsx\<close> (times, durations, pixel positions) is a
  JavaScript \<^verbatim>\<open>number\<close>. The model keeps the three special values the code tests for
  (\<^verbatim>\<open>isFinite\<close>, division by zero) and idealises the finite ones as real numbers:
  rounding, overflow to infinity and the sign of zero are left out (the one zero behaves
  as \<^verbatim>\<open>+0\<close>). Comparisons with \<^verbatim>\<open>NaN\<close> are false, as in the language.
\<close>

datatype number = Fin real | PInf | NInf | NaN

fun isFinite :: "number \<Rightarrow> bool" where
  "isFinite (Fin a) = True"
| "isFinite _ = False"

fun js_neg :: "number \<Rightarrow> number" where
  "js_neg (Fin a) = Fin (- a)"
| "js_neg PInf = NInf"
| "js_neg NInf = PInf"
| "js_neg NaN = NaN"

fun js_add :: "number \<Rightarrow> number \<Rightarrow> number" where
  "js_add NaN _ = NaN"
| "js_add _ NaN = NaN"
| "js_add (Fin a) (Fin b) = Fin (a + b)"
| "js_add PInf NInf = NaN"
| "js_add NInf PInf = NaN"
| "js_add PInf _ = PInf"
| "js_add NInf _ = NInf"
| "js_add _ PInf = PInf"
| "js_add _ NInf = NInf"

definition js_sub :: "number \<Rightarrow> number \<Rightarrow> number" where
  "js_sub a b = js_add a (js_neg b)"

fun js_mul :: "number \<Rightarrow> number \<Rightarrow> number" where
  "js_mul NaN _ = NaN"
| "js_mul _ NaN = NaN"
| "js_mul (Fin a) (Fin b) = Fin (a * b)"
| "js_mul (Fin a) PInf = (if a = 0 then NaN else if 0 < a then PInf else NInf)"
| "js_mul (Fin a) NInf = (if a = 0 then NaN else if 0 < a then NInf else PInf)"
| "js_mul PInf (Fin b) = (if b = 0 then NaN else if 0 < b then PInf else NInf)"
| "js_mul NInf (Fin b) = (if b = 0 then NaN else if 0 < b then NInf else PInf)"
| "js_mul PInf PInf = PInf"
| "js_mul NInf NInf = PInf"
| "js_mul PInf NInf = NInf"
| "js_mul NInf PInf = NInf"

fun js_div :: "number \<Rightarrow> number \<Rightarrow> number" where
  "js_div NaN _ = NaN"
| "js_div _ NaN = NaN"
| "js_div (Fin a) (Fin b) =
     (if b = 0 then (if a = 0 then NaN else if 0 < a then PInf else NInf)
      else Fin (a / b))"
| "js_div (Fin a) _ = Fin 0"
| "js_div PInf (Fin b) = (if 0 \<le> b then PInf else NInf)"
| "js_div NInf (Fin b) = (if 0 \<le> b then NInf else PInf)"
| "js_div _ _ = NaN"

fun js_lt :: "number \<Rightarrow> number \<Rightarrow> bool" where
  "js_lt NaN _ = False"
| "js_lt _ NaN = False"
| "js_lt (Fin a) (Fin b) = (a < b)"
| "js_lt _ NInf = False"
| "js_lt PInf _ = False"
| "js_lt _ _ = True"

fun js_le :: "number \<Rightarrow> number \<Rightarrow> bool" where
  "js_le NaN _ = False"
| "js_le _ NaN = False"
| "js_le (Fin a) (Fin b) = (a \<le> b)"
| "js_le NInf _ = True"
| "js_le _ PInf = True"
| "js_le _ _ = False"

definition js_gt :: "number \<Rightarrow> number \<Rightarrow> bool" where
  "js_gt a b = js_lt b a"

definition js_ge :: "number \<Rightarrow> number \<Rightarrow> bool" where
  "js_ge a b = js_le b a"

text \<open>Strict equality \<^verbatim>\<open>===\<close> on numbers: \<^verbatim>\<open>NaN\<close> equals nothing.\<close>

fun js_seq :: "number \<Rightarrow> number \<Rightarrow> bool" where
  "js_seq NaN _ = False"
| "js_seq _ NaN = False"
| "js_seq a b = (a = b)"

text \<open>\<^verbatim>\<open>Math.min\<close> and \<^verbatim>\<open>Math.max\<close> of two arguments: \<^verbatim>\<open>NaN\<close> if either is.\<close>

fun Math_min :: "number \<Rightarrow> number \<Rightarrow> number" where
  "Math_min NaN _ = NaN"
| "Math_min _ NaN = NaN"
| "Math_min a b = (if js_le a b then a else b)"

fun Math_max :: "number \<Rightarrow> number \<Rightarrow> number" where
  "Math_max NaN _ = NaN"
| "Math_max _ NaN = NaN"
| "Math_max a b = (if js_le a b then b else a)"


section \<open>The component's state\<close>

text \<open>
  A chunk is the object \<^verbatim>\<open>{ start, end }\<close>; the field \<^verbatim>\<open>end\<close> is written \<open>end'\<close>.
\<close>

record chunk =
  start :: number
  end' :: number

text \<open>
  What the code reads and writes of the \<^verbatim>\<open>HTMLVideoElement\<close> behind \<^verbatim>\<open>videoRef\<close>.
  \<open>video_seekable\<close> is the \<^verbatim>\<open>TimeRanges\<close> object as its list of (start, end) pairs;
  \<open>video_listeners\<close> are the registrations made by \<^verbatim>\<open>addEventListener\<close>, each an
  event name with the function registered; two closures of the same function are two
  registrations, so they form a multiset.
\<close>

datatype handler = OnLoadedMetadata | OnDurationChange | OnTimeUpdate | OnSeeked

record HTMLVideoElement =
  video_currentTime :: number
  video_duration :: number
  video_readyState :: nat
  video_seekable :: "(number \<times> number) list"
  video_listeners :: "(string \<times> handler) multiset"

text \<open>The \<^verbatim>\<open>useState\<close> cells of \<^verbatim>\<open>CuttingPage\<close>, with their initial values.\<close>

record page =
  duration :: number
  currentTime :: number
  chunks :: "chunk list"
  thumbnails :: "string list"
  loadingThumbs :: bool

definition initial_page :: page where
  "initial_page =
     \<lparr>duration = Fin 0, currentTime = Fin 0, chunks = [], thumbnails = [],
      loadingThumbs = False\<rparr>"

definition minChunk :: number where
  "minChunk = Fin 2"

definition maxChunk :: number where
  "maxChunk = Fin 10"

definition thumbCount :: nat where
  "thumbCount = 15"


section \<open>Adding a chunk\<close>

text \<open>
  \<^verbatim>\<open>handleAddChunk\<close> either returns at its guard, raises an \<^verbatim>\<open>alert\<close>, or calls
  \<^verbatim>\<open>setChunks\<close>. The handler of a click runs on the state of the latest render, so the
  \<^verbatim>\<open>chunks\<close> it tests and the \<^verbatim>\<open>prev\<close> it appends to are the same list.
\<close>

datatype add_outcome = Returned | Alert string | Appended

text \<open>Lines 152-153: the candidate interval.\<close>

definition candidate :: "HTMLVideoElement \<Rightarrow> page \<Rightarrow> chunk" where
  "candidate video p =
     (let s = video_currentTime video;
          e = Math_min (js_add s maxChunk) (duration p)
      in \<lparr>start = s, end' = e\<rparr>)"

definition handleAddChunk :: "HTMLVideoElement option \<Rightarrow> page \<Rightarrow> add_outcome \<times> page" where
  "handleAddChunk videoRef p =
     (case videoRef of
        None \<Rightarrow> (Returned, p)
      | Some video \<Rightarrow>
          if js_le (duration p) (Fin 0) then (Returned, p)
          else
            let s = start (candidate video p);
                e = end' (candidate video p);
                overlaps = list_ex (\<lambda>c. \<not> (js_le e (start c) \<or> js_ge s (end' c))) (chunks p)
            in if overlaps then (Alert ''Chunk overlaps another!'', p)
               else if js_lt (js_sub e s) minChunk then (Alert ''Chunk too short!'', p)
               else (Appended, p\<lparr>chunks := chunks p @ [\<lparr>start = s, end' = e\<rparr>]\<rparr>))"

text \<open>
  The chunk lists that successful calls build from the empty one. Between two calls the
  video and the working duration may be anything.
\<close>

inductive added_from_empty :: "chunk list \<Rightarrow> bool" where
  empty: "added_from_empty []"
| add: "added_from_empty (chunks p) \<Longrightarrow> handleAddChunk videoRef p = (Appended, p')
          \<Longrightarrow> added_from_empty (chunks p')"

text \<open>The spec's invariant of the chunk set, with the comparisons of the language.\<close>

definition no_overlap :: "chunk list \<Rightarrow> bool" where
  "no_overlap cs =
     (\<forall>A \<in> set cs. \<forall>B \<in> set cs. A = B \<or> js_le (end' A) (start B) \<or> js_le (end' B) (start A))"

text \<open>The spec's overlap test of two intervals: the negation of its non-overlap condition.\<close>

definition intersects :: "chunk \<Rightarrow> chunk \<Rightarrow> bool" where
  "intersects A B = (\<not> (js_le (end' A) (start B) \<or> js_le (end' B) (start A)))"


section \<open>Clicking the timeline\<close>

text \<open>\<^verbatim>\<open>getBoundingClientRect()\<close> of the timeline element: the two fields the handler reads.\<close>

record DOMRect =
  rect_left :: number
  rect_width :: number

text \<open>Lines 144-145: the time a click at \<open>clickX\<close> pixels from the left edge stands for.\<close>

definition pixelToTime :: "number \<Rightarrow> number \<Rightarrow> number \<Rightarrow> number" where
  "pixelToTime clickX width d =
     (let percent = Math_max (Fin 0) (Math_min (Fin 1) (js_div clickX width))
      in js_mul percent d)"

text \<open>
  \<^verbatim>\<open>handleTimelineClick\<close> writes only \<^verbatim>\<open>video.currentTime\<close>; the result is the video
  element behind \<^verbatim>\<open>videoRef\<close> after the call. \<open>timelineRef\<close> is the timeline element,
  given by its bounding rectangle.
\<close>

definition handleTimelineClick ::
  "DOMRect option \<Rightarrow> HTMLVideoElement option \<Rightarrow> page \<Rightarrow> number \<Rightarrow> HTMLVideoElement option" where
  "handleTimelineClick timelineRef videoRef p clientX =
     (case timelineRef of
        None \<Rightarrow> videoRef
      | Some rect \<Rightarrow>
          (case videoRef of
             None \<Rightarrow> videoRef
           | Some video \<Rightarrow>
               if js_le (duration p) (Fin 0) then videoRef
               else
                 let clickX = js_sub clientX (rect_left rect);
                     newTime = pixelToTime clickX (rect_width rect) (duration p)
                 in if isFinite newTime then Some (video\<lparr>video_currentTime := newTime\<rparr>)
                    else videoRef))"


section \<open>Render geometry\<close>

text \<open>
  Lines 190-206: the \<^verbatim>\<open>left\<close> and \<^verbatim>\<open>width\<close> of every chunk and the \<^verbatim>\<open>left\<close> of the
  playhead, as the numbers that are printed in front of the \<^verbatim>\<open>%\<close> sign.
\<close>

record chunk_style =
  style_left :: number
  style_width :: number

record RenderGeometry =
  playhead :: number
  chunk_styles :: "chunk_style list"

definition chunk_geometry :: "page \<Rightarrow> chunk \<Rightarrow> chunk_style" where
  "chunk_geometry p c =
     \<lparr>style_left = js_mul (js_div (start c) (duration p)) (Fin 100),
      style_width = js_mul (js_div (js_sub (end' c) (start c)) (duration p)) (Fin 100)\<rparr>"

definition render_geometry :: "page \<Rightarrow> RenderGeometry" where
  "render_geometry p =
     \<lparr>playhead = js_mul (js_div (currentTime p) (duration p)) (Fin 100),
      chunk_styles = map (chunk_geometry p) (chunks p)\<rparr>"


section \<open>Seeking\<close>

text \<open>
  \<^verbatim>\<open>seekTo\<close> returns a promise and leaves two callbacks behind: \<^verbatim>\<open>onSeeked\<close>, registered
  on the video, and the callback of a 5000 ms timer. A \<open>seek_state\<close> is the state of one
  call: the video, the milliseconds left on its timer (\<open>None\<close> once the timer has fired
  or was cleared), whether its \<^verbatim>\<open>onSeeked\<close> is still registered, and its promise.
  Time passes in whole milliseconds.
\<close>

datatype promise = Pending | Resolved | Rejected string

record seek_state =
  sk_video :: HTMLVideoElement
  sk_timer :: "nat option"
  sk_listening :: bool
  sk_promise :: promise

datatype seek_event = Seeked | Elapse nat

text \<open>A promise settles once: \<^verbatim>\<open>resolve\<close> and \<^verbatim>\<open>reject\<close> on a settled promise do nothing.\<close>

definition settle :: "promise \<Rightarrow> promise \<Rightarrow> promise" where
  "settle outcome pr = (if pr = Pending then outcome else pr)"

text \<open>\<^verbatim>\<open>video.removeEventListener("seeked", onSeeked)\<close>: nothing happens when it is not registered.\<close>

definition remove_onSeeked :: "seek_state \<Rightarrow> seek_state" where
  "remove_onSeeked s =
     (if sk_listening s
      then s\<lparr>sk_video := (sk_video s)
               \<lparr>video_listeners := video_listeners (sk_video s) - {#(''seeked'', OnSeeked)#}\<rparr>,
             sk_listening := False\<rparr>
      else s)"

text \<open>Lines 123-126, the timer's callback, and lines 128-132, \<^verbatim>\<open>onSeeked\<close>.\<close>

definition timeout_callback :: "seek_state \<Rightarrow> seek_state" where
  "timeout_callback s =
     (let s1 = remove_onSeeked s
      in s1\<lparr>sk_promise := settle (Rejected ''Seek timeout'') (sk_promise s1)\<rparr>)"

definition onSeeked :: "seek_state \<Rightarrow> seek_state" where
  "onSeeked s =
     (let s1 = s\<lparr>sk_timer := None\<rparr>;
          s2 = remove_onSeeked s1
      in s2\<lparr>sk_promise := settle Resolved (sk_promise s2)\<rparr>)"

text \<open>Lines 122-136: the executor runs at once; the promise is returned pending.\<close>

definition seekTo :: "HTMLVideoElement \<Rightarrow> number \<Rightarrow> seek_state" where
  "seekTo video time =
     \<lparr>sk_video = video
        \<lparr>video_listeners := video_listeners video + {#(''seeked'', OnSeeked)#},
         video_currentTime := time\<rparr>,
      sk_timer = Some 5000,
      sk_listening = True,
      sk_promise = Pending\<rparr>"

text \<open>
  What the event loop does to a call: a \<^verbatim>\<open>seeked\<close> event runs \<^verbatim>\<open>onSeeked\<close> while it is
  registered; time passing runs the timer's callback once its delay is used up.
\<close>

fun seek_step :: "seek_event \<Rightarrow> seek_state \<Rightarrow> seek_state" where
  "seek_step Seeked s = (if sk_listening s then onSeeked s else s)"
| "seek_step (Elapse n) s =
     (case sk_timer s of
        None \<Rightarrow> s
      | Some r \<Rightarrow>
          if r \<le> n then timeout_callback (s\<lparr>sk_timer := None\<rparr>)
          else s\<lparr>sk_timer := Some (r - n)\<rparr>)"

fun seek_run :: "seek_event list \<Rightarrow> seek_state \<Rightarrow> seek_state" where
  "seek_run [] s = s"
| "seek_run (e # es) s = seek_run es (seek_step e s)"

fun elapsed :: "seek_event list \<Rightarrow> nat" where
  "elapsed [] = 0"
| "elapsed (Seeked # es) = elapsed es"
| "elapsed (Elapse n # es) = n + elapsed es"

text \<open>
  \<^verbatim>\<open>await seekTo(video, time)\<close> when the browser fires \<^verbatim>\<open>seeked\<close> after \<open>d\<close>
  milliseconds (\<open>None\<close>: never). A \<^verbatim>\<open>seeked\<close> event that is due when the timer is due
  comes after the timer's callback.
\<close>

definition await_seekTo :: "HTMLVideoElement \<Rightarrow> number \<Rightarrow> nat option \<Rightarrow> promise \<times> HTMLVideoElement" where
  "await_seekTo video time d =
     (let s = seek_run (case d of None \<Rightarrow> [Elapse 5000] | Some n \<Rightarrow> [Elapse n, Seeked])
                (seekTo video time)
      in (sk_promise s, sk_video s))"


section \<open>Generating thumbnails\<close>

text \<open>
  What the browser does for the sample with index \<open>i\<close>: when it answers the seek, and
  what \<^verbatim>\<open>drawImage\<close> followed by \<^verbatim>\<open>toDataURL\<close> gives (\<open>None\<close>: one of them throws).
\<close>

record sample_env =
  seeked_after :: "nat option"
  snapshot :: "string option"

text \<open>
  The state of a batch: the video, the array \<^verbatim>\<open>thumbs\<close>, and the log of the times that
  \<^verbatim>\<open>seekTo\<close> was called with.
\<close>

record thumbs_state =
  ts_video :: HTMLVideoElement
  ts_thumbs :: "string list"
  ts_seeks :: "number list"

text \<open>Lines 102-111, the body of the loop; the \<^verbatim>\<open>catch\<close> only logs.\<close>

definition sample :: "(nat \<Rightarrow> sample_env) \<Rightarrow> number \<Rightarrow> nat \<Rightarrow> thumbs_state \<Rightarrow> thumbs_state" where
  "sample env interval i st =
     (let time = js_mul (Fin (real i)) interval;
          r = await_seekTo (ts_video st) time (seeked_after (env i));
          st1 = st\<lparr>ts_video := snd r, ts_seeks := ts_seeks st @ [time]\<rparr>
      in case fst r of
           Resolved \<Rightarrow>
             (case snapshot (env i) of
                Some url \<Rightarrow> st1\<lparr>ts_thumbs := ts_thumbs st1 @ [url]\<rparr>
              | None \<Rightarrow> st1)
         | _ \<Rightarrow> st1)"

function thumb_loop ::
  "(nat \<Rightarrow> sample_env) \<Rightarrow> number \<Rightarrow> nat \<Rightarrow> nat \<Rightarrow> thumbs_state \<Rightarrow> thumbs_state" where
  "thumb_loop env interval cnt i st =
     (if i < cnt then thumb_loop env interval cnt (Suc i) (sample env interval i st)
      else st)"
  by pat_completeness auto
termination
  by (relation "measure (\<lambda>(env, interval, cnt, i, st). cnt - i)") auto

text \<open>
  \<^verbatim>\<open>generateThumbnails(video, count)\<close>; \<open>ctx\<close> tells whether \<^verbatim>\<open>getContext("2d")\<close> gave a
  context. \<open>cnt\<close>, the argument \<^verbatim>\<open>count\<close>, is a natural number: the one call passes \<^verbatim>\<open>thumbCount\<close>.
\<close>

definition generateThumbnails ::
  "bool \<Rightarrow> (nat \<Rightarrow> sample_env) \<Rightarrow> HTMLVideoElement \<Rightarrow> nat \<Rightarrow> thumbs_state" where
  "generateThumbnails ctx env video cnt =
     (let thumbs = [];
          d = video_duration video;
          interval = js_div d (Fin (real cnt))
      in if \<not> ctx then \<lparr>ts_video = video, ts_thumbs = thumbs, ts_seeks = []\<rparr>
         else
           let originalTime = video_currentTime video;
               st = thumb_loop env interval cnt 0
                      \<lparr>ts_video = video, ts_thumbs = thumbs, ts_seeks = []\<rparr>
           in st\<lparr>ts_video := (ts_video st)\<lparr>video_currentTime := originalTime\<rparr>\<rparr>)"

text \<open>The samples that end up in the result: the seek was answered in time and the capture did not throw.\<close>

definition captured :: "(nat \<Rightarrow> sample_env) \<Rightarrow> nat \<Rightarrow> string option" where
  "captured env i =
     (case seeked_after (env i) of
        None \<Rightarrow> None
      | Some n \<Rightarrow> if n < 5000 then snapshot (env i) else None)"

text \<open>The timestamps of the spec: \<^verbatim>\<open>t_i = i * (duration / count)\<close> for \<^verbatim>\<open>i\<close> in \<^verbatim>\<open>[0, count)\<close>.\<close>

definition timestamps :: "number \<Rightarrow> nat \<Rightarrow> number list" where
  "timestamps d cnt = map (\<lambda>i. js_mul (Fin (real i)) (js_div d (Fin (real cnt)))) [0..<cnt]"


section \<open>Resolving the duration\<close>

text \<open>
  Lines 27-42. The state setters are applied in order; \<^verbatim>\<open>generateThumbnails\<close> does not
  throw, so \<^verbatim>\<open>setThumbnails\<close> is always reached.
\<close>

definition processThumbnails ::
  "bool \<Rightarrow> (nat \<Rightarrow> sample_env) \<Rightarrow> HTMLVideoElement \<Rightarrow> page \<Rightarrow> HTMLVideoElement \<times> page" where
  "processThumbnails ctx env video p =
     (if isFinite (video_duration video) \<and> js_gt (video_duration video) (Fin 0)
      then
        let p1 = p\<lparr>duration := video_duration video\<rparr>;
            p2 = p1\<lparr>loadingThumbs := True\<rparr>;
            st = generateThumbnails ctx env video thumbCount;
            p3 = p2\<lparr>thumbnails := ts_thumbs st\<rparr>
        in (ts_video st, p3\<lparr>loadingThumbs := False\<rparr>)
      else (video, p))"

text \<open>
  The effect of lines 23-81 has the dependency list \<^verbatim>\<open>[videoUrl]\<close>: it runs after the
  first render and again only when \<^verbatim>\<open>videoUrl\<close> changes. The handlers it registers are
  closures over the constants of the render that ran it; the only state they read is
  \<^verbatim>\<open>duration\<close> (line 58). A registration is therefore the value \<^verbatim>\<open>duration\<close> had in
  that render.
\<close>

record registration =
  closure_duration :: number

text \<open>Lines 55-65, run in a registration. \<^verbatim>\<open>video.seekable.end(0)\<close> is read only when a range exists.\<close>

definition onTimeUpdate :: "registration \<Rightarrow> HTMLVideoElement \<Rightarrow> page \<Rightarrow> page" where
  "onTimeUpdate reg video p =
     (let p1 = p\<lparr>currentTime := video_currentTime video\<rparr>
      in if \<not> isFinite (closure_duration reg) \<or> js_seq (closure_duration reg) (Fin 0)
         then
           if js_gt (video_currentTime video) (Fin 0) \<and> 0 < length (video_seekable video)
           then
             (case video_seekable video of
                [] \<Rightarrow> p1
              | range0 # _ \<Rightarrow> p1\<lparr>duration := snd range0\<rparr>)
           else p1
         else p1)"

text \<open>
  Lines 24-25 and 67-74: the body of the effect, run in the render that shows page \<open>p\<close>,
  past the return of line 25 (the video element and \<^verbatim>\<open>videoUrl\<close> exist).
\<close>

definition useEffect_videoUrl ::
  "bool \<Rightarrow> (nat \<Rightarrow> sample_env) \<Rightarrow> HTMLVideoElement \<Rightarrow> page
     \<Rightarrow> registration \<times> HTMLVideoElement \<times> page" where
  "useEffect_videoUrl ctx env video p =
     (let reg = \<lparr>closure_duration = duration p\<rparr>;
          video1 = video\<lparr>video_listeners := video_listeners video
                     + {#(''loadedmetadata'', OnLoadedMetadata)#}
                     + {#(''durationchange'', OnDurationChange)#}
                     + {#(''timeupdate'', OnTimeUpdate)#}\<rparr>
      in if 1 \<le> video_readyState video1
         then (reg, processThumbnails ctx env video1 p)
         else (reg, video1, p))"

text \<open>
  An event of the video reaches the handler that the registration holds for it; \<open>video\<close>
  is the element as the browser presents it when the event fires.
\<close>

datatype media_event = LoadedMetadata | DurationChange | TimeUpdate

fun dispatch ::
  "bool \<Rightarrow> (nat \<Rightarrow> sample_env) \<Rightarrow> registration \<Rightarrow> media_event \<Rightarrow> HTMLVideoElement \<Rightarrow> page
     \<Rightarrow> HTMLVideoElement \<times> page" where
  "dispatch ctx env reg LoadedMetadata video p = processThumbnails ctx env video p"
| "dispatch ctx env reg DurationChange video p = processThumbnails ctx env video p"
| "dispatch ctx env reg TimeUpdate video p = (video, onTimeUpdate reg video p)"


section \<open>Scenarios\<close>

text \<open>Concrete inputs for the scenarios: a loaded 20-second video at position \<open>t\<close>, and
  the page with a working duration and a chunk list.\<close>

definition video_at :: "number \<Rightarrow> HTMLVideoElement" where
  "video_at t =
     \<lparr>video_currentTime = t, video_duration = Fin 20, video_readyState = 4,
      video_seekable = [(Fin 0, Fin 20)], video_listeners = {#}\<rparr>"

definition page_of :: "number \<Rightarrow> chunk list \<Rightarrow> page" where
  "page_of d cs = initial_page\<lparr>duration := d, chunks := cs\<rparr>"


text \<open>
  The two settled states of a call \<^verbatim>\<open>seekTo(video, time)\<close>: in both the position is
  \<open>time\<close>, no timer is armed, \<^verbatim>\<open>onSeeked\<close> is no longer registered and the video has the
  listeners it had before the call.
\<close>

definition seek_resolved :: "HTMLVideoElement \<Rightarrow> number \<Rightarrow> seek_state" where
  "seek_resolved video time =
     \<lparr>sk_video = video\<lparr>video_currentTime := time\<rparr>, sk_timer = None,
      sk_listening = False, sk_promise = Resolved\<rparr>"

definition seek_timed_out :: "HTMLVideoElement \<Rightarrow> number \<Rightarrow> seek_state" where
  "seek_timed_out video time =
     \<lparr>sk_video = video\<lparr>video_currentTime := time\<rparr>, sk_timer = None,
      sk_listening = False, sk_promise = Rejected ''Seek timeout''\<rparr>"

text \<open>
  A browser that answers every seek after 40 ms and captures every frame, and one that
  lets the seek of sample 1 time out and fails to capture sample 2.
\<close>

definition steady_browser :: "nat \<Rightarrow> sample_env" where
  "steady_browser i = \<lparr>seeked_after = Some 40, snapshot = Some ''data:image/jpeg;frame''\<rparr>"

definition flaky_browser :: "nat \<Rightarrow> sample_env" where
  "flaky_browser i =
     (if i = 1 then \<lparr>seeked_after = None, snapshot = Some ''data:image/jpeg;one''\<rparr>
      else if i = 2 then \<lparr>seeked_after = Some 40, snapshot = None\<rparr>
      else if i = 0 then \<lparr>seeked_after = Some 40, snapshot = Some ''data:image/jpeg;zero''\<rparr>
      else \<lparr>seeked_after = Some 4999, snapshot = Some ''data:image/jpeg;three''\<rparr>)"

text \<open>
  A session of the duration resolver: the page is mounted on a video whose metadata is not
  loaded yet; \<^verbatim>\<open>loadedmetadata\<close> then reports a duration of 20 seconds; later, one second
  into playback, a \<^verbatim>\<open>timeupdate\<close> fires while the seekable range ends at 12 seconds.
\<close>

definition unloaded_video :: HTMLVideoElement where
  "unloaded_video =
     \<lparr>video_currentTime = Fin 0, video_duration = NaN, video_readyState = 0,
      video_seekable = [], video_listeners = {#}\<rparr>"

definition session_mounted :: "registration \<times> HTMLVideoElement \<times> page" where
  "session_mounted = useEffect_videoUrl True steady_browser unloaded_video initial_page"

definition session_loaded :: "HTMLVideoElement \<times> page" where
  "session_loaded =
     dispatch True steady_browser (fst session_mounted) LoadedMetadata
       ((fst (snd session_mounted))
          \<lparr>video_duration := Fin 20, video_readyState := 1, video_seekable := [(Fin 0, Fin 12)]\<rparr>)
       (snd (snd session_mounted))"

definition session_playing :: "HTMLVideoElement \<times> page" where
  "session_playing =
     dispatch True steady_browser (fst session_mounted) TimeUpdate
       ((fst session_loaded)\<lparr>video_currentTime := Fin 1\<rparr>)
       (snd session_loaded)"


section \<open>Properties of adding a chunk\<close>

lemmas add_chunk_eval =
  handleAddChunk_def candidate_def video_at_def page_of_def initial_page_def
  maxChunk_def minChunk_def js_sub_def js_ge_def Let_def

lemma handleAddChunk_Appended:
  assumes "handleAddChunk videoRef p = (Appended, p')"
  obtains video where "videoRef = Some video"
    and "\<not> js_le (duration p) (Fin 0)"
    and "\<forall>c \<in> set (chunks p). \<not> intersects (candidate video p) c"
    and "\<not> js_lt (js_sub (end' (candidate video p)) (start (candidate video p))) minChunk"
    and "p' = p\<lparr>chunks := chunks p @ [candidate video p]\<rparr>"
proof (cases videoRef)
  case None
  with assms show ?thesis by (simp add: handleAddChunk_def)
next
  case (Some video)
  with assms have g: "\<not> js_le (duration p) (Fin 0)"
    by (auto simp: handleAddChunk_def split: if_splits)
  from assms Some g
  have o: "\<not> list_ex (\<lambda>c. \<not> (js_le (end' (candidate video p)) (start c)
              \<or> js_ge (start (candidate video p)) (end' c))) (chunks p)"
    by (auto simp: handleAddChunk_def Let_def split: if_splits)
  from assms Some g o
  have m: "\<not> js_lt (js_sub (end' (candidate video p)) (start (candidate video p))) minChunk"
    by (auto simp: handleAddChunk_def Let_def split: if_splits)
  from assms Some g o m
  have "p' = p\<lparr>chunks := chunks p @ [\<lparr>start = start (candidate video p),
                 end' = end' (candidate video p)\<rparr>]\<rparr>"
    by (auto simp: handleAddChunk_def Let_def split: if_splits)
  then have e: "p' = p\<lparr>chunks := chunks p @ [candidate video p]\<rparr>"
    by simp
  from o have "\<forall>c \<in> set (chunks p). \<not> intersects (candidate video p) c"
    by (auto simp: list_ex_iff intersects_def js_ge_def)
  with Some g m e show ?thesis using that by blast
qed

lemma no_overlap_snoc:
  assumes "no_overlap cs" and "\<forall>c \<in> set cs. \<not> intersects n c"
  shows "no_overlap (cs @ [n])"
  using assms unfolding no_overlap_def intersects_def by auto

text \<open>
  C1. After any sequence of successful \<^verbatim>\<open>addChunk\<close> operations that starts from the empty
  chunk set, any two chunks A, B of the set satisfy
  \<^verbatim>\<open>A == B or A.end <= B.start or B.end <= A.start\<close>.
\<close>

theorem added_chunks_never_overlap:
  "added_from_empty cs \<Longrightarrow> no_overlap cs"
proof (induction rule: added_from_empty.induct)
  case empty
  show ?case by (simp add: no_overlap_def)
next
  case (add p videoRef p')
  from add.hyps(2) obtain video
    where "\<forall>c \<in> set (chunks p). \<not> intersects (candidate video p) c"
      and "p' = p\<lparr>chunks := chunks p @ [candidate video p]\<rparr>"
    by (rule handleAddChunk_Appended)
  with add.IH show ?case by (simp add: no_overlap_snoc)
qed

theorem added_chunks_never_overlap_witness:
  "added_from_empty [\<lparr>start = Fin 5, end' = Fin 15\<rparr>, \<lparr>start = Fin 15, end' = Fin 20\<rparr>]
   \<and> no_overlap [\<lparr>start = Fin 5, end' = Fin 15\<rparr>, \<lparr>start = Fin 15, end' = Fin 20\<rparr>]"
proof -
  let ?c1 = "\<lparr>start = Fin 5, end' = Fin 15\<rparr>" and ?c2 = "\<lparr>start = Fin 15, end' = Fin 20\<rparr>"
  have s1: "handleAddChunk (Some (video_at (Fin 5))) (page_of (Fin 20) [])
              = (Appended, page_of (Fin 20) [?c1])"
    by (simp add: add_chunk_eval)
  have s2: "handleAddChunk (Some (video_at (Fin 15))) (page_of (Fin 20) [?c1])
              = (Appended, page_of (Fin 20) [?c1, ?c2])"
    by (simp add: add_chunk_eval)
  have a0: "added_from_empty (chunks (page_of (Fin 20) []))"
    by (simp add: page_of_def added_from_empty.empty)
  have a1: "added_from_empty (chunks (page_of (Fin 20) [?c1]))"
    by (rule added_from_empty.add [OF a0 s1])
  have "added_from_empty (chunks (page_of (Fin 20) [?c1, ?c2]))"
    by (rule added_from_empty.add [OF a1 s2])
  then have r: "added_from_empty [?c1, ?c2]"
    by (simp add: page_of_def)
  from r added_chunks_never_overlap [OF r] show ?thesis by simp
qed

text \<open>
  C2. A successful \<^verbatim>\<open>addChunk\<close> produces exactly the chunk
  \<^verbatim>\<open>{start: currentTime, end: min(currentTime + maxChunkLength, duration)}\<close> and appends
  it after all existing chunks, which keep their order; nothing else of the page changes.
  In particular, at \<^verbatim>\<open>currentTime = 5\<close> with \<^verbatim>\<open>duration = 20\<close> and no existing chunks
  the call succeeds and produces \<^verbatim>\<open>{start: 5, end: 15}\<close>.
\<close>

theorem successful_add_appends_candidate:
  "(handleAddChunk videoRef p = (Appended, p') \<longrightarrow>
      (\<exists>video. videoRef = Some video \<and>
         p' = p\<lparr>chunks := chunks p @
                [\<lparr>start = video_currentTime video,
                  end' = Math_min (js_add (video_currentTime video) maxChunk) (duration p)\<rparr>]\<rparr>))
   \<and> handleAddChunk (Some (video_at (Fin 5))) (page_of (Fin 20) [])
       = (Appended, page_of (Fin 20) [\<lparr>start = Fin 5, end' = Fin 15\<rparr>])"
proof (intro conjI impI)
  assume "handleAddChunk videoRef p = (Appended, p')"
  then obtain video where "videoRef = Some video"
    and "p' = p\<lparr>chunks := chunks p @ [candidate video p]\<rparr>"
    by (rule handleAddChunk_Appended)
  then show "\<exists>video. videoRef = Some video \<and>
         p' = p\<lparr>chunks := chunks p @
                [\<lparr>start = video_currentTime video,
                  end' = Math_min (js_add (video_currentTime video) maxChunk) (duration p)\<rparr>]\<rparr>"
    by (simp add: candidate_def Let_def)
next
  show "handleAddChunk (Some (video_at (Fin 5))) (page_of (Fin 20) [])
       = (Appended, page_of (Fin 20) [\<lparr>start = Fin 5, end' = Fin 15\<rparr>])"
    by (simp add: add_chunk_eval)
qed

theorem successful_add_appends_candidate_witness:
  "handleAddChunk (Some (video_at (Fin 15))) (page_of (Fin 20) [\<lparr>start = Fin 5, end' = Fin 15\<rparr>])
     = (Appended, page_of (Fin 20) [\<lparr>start = Fin 5, end' = Fin 15\<rparr>, \<lparr>start = Fin 15, end' = Fin 20\<rparr>])
   \<and> (\<exists>video. Some (video_at (Fin 15)) = Some video \<and>
         page_of (Fin 20) [\<lparr>start = Fin 5, end' = Fin 15\<rparr>, \<lparr>start = Fin 15, end' = Fin 20\<rparr>]
           = (page_of (Fin 20) [\<lparr>start = Fin 5, end' = Fin 15\<rparr>])
               \<lparr>chunks := chunks (page_of (Fin 20) [\<lparr>start = Fin 5, end' = Fin 15\<rparr>]) @
                 [\<lparr>start = video_currentTime video,
                   end' = Math_min (js_add (video_currentTime video) maxChunk)
                            (duration (page_of (Fin 20) [\<lparr>start = Fin 5, end' = Fin 15\<rparr>]))\<rparr>]\<rparr>)"
proof -
  have h: "handleAddChunk (Some (video_at (Fin 15)))
             (page_of (Fin 20) [\<lparr>start = Fin 5, end' = Fin 15\<rparr>])
           = (Appended, page_of (Fin 20)
               [\<lparr>start = Fin 5, end' = Fin 15\<rparr>, \<lparr>start = Fin 15, end' = Fin 20\<rparr>])"
    by (simp add: add_chunk_eval)
  from successful_add_appends_candidate
    [of "Some (video_at (Fin 15))" "page_of (Fin 20) [\<lparr>start = Fin 5, end' = Fin 15\<rparr>]"
        "page_of (Fin 20) [\<lparr>start = Fin 5, end' = Fin 15\<rparr>, \<lparr>start = Fin 15, end' = Fin 20\<rparr>]"]
    h
  show ?thesis by blast
qed

text \<open>
  C3. A candidate whose interval intersects some existing chunk, or whose length
  \<^verbatim>\<open>end - start\<close> is below \<^verbatim>\<open>minChunk\<close>, is never appended and the page (the chunk set
  with it) is left exactly as it was; past the duration guard the call is answered with
  the alert of the first failing test.
\<close>

theorem overlapping_or_short_candidate_rejected:
  assumes "(\<exists>c \<in> set (chunks p). intersects (candidate video p) c)
           \<or> js_lt (js_sub (end' (candidate video p)) (start (candidate video p))) minChunk"
  shows "snd (handleAddChunk (Some video) p) = p
         \<and> fst (handleAddChunk (Some video) p) \<noteq> Appended
         \<and> (\<not> js_le (duration p) (Fin 0) \<longrightarrow>
              fst (handleAddChunk (Some video) p) =
                Alert (if \<exists>c \<in> set (chunks p). intersects (candidate video p) c
                       then ''Chunk overlaps another!'' else ''Chunk too short!''))"
proof -
  have o: "list_ex (\<lambda>c. \<not> (js_le (end' (candidate video p)) (start c)
              \<or> js_ge (start (candidate video p)) (end' c))) (chunks p)
           \<longleftrightarrow> (\<exists>c \<in> set (chunks p). intersects (candidate video p) c)"
    by (simp add: list_ex_iff intersects_def js_ge_def)
  show ?thesis
  proof (cases "js_le (duration p) (Fin 0)")
    case True
    then show ?thesis by (simp add: handleAddChunk_def)
  next
    case False
    with assms o show ?thesis
      by (auto simp: handleAddChunk_def Let_def)
  qed
qed

theorem overlapping_or_short_candidate_rejected_witness:
  "intersects (candidate (video_at (Fin 12)) (page_of (Fin 20) [\<lparr>start = Fin 5, end' = Fin 15\<rparr>]))
     \<lparr>start = Fin 5, end' = Fin 15\<rparr>
   \<and> handleAddChunk (Some (video_at (Fin 12))) (page_of (Fin 20) [\<lparr>start = Fin 5, end' = Fin 15\<rparr>])
       = (Alert ''Chunk overlaps another!'', page_of (Fin 20) [\<lparr>start = Fin 5, end' = Fin 15\<rparr>])
   \<and> js_lt (js_sub (end' (candidate (video_at (Fin 19)) (page_of (Fin 20) [])))
                    (start (candidate (video_at (Fin 19)) (page_of (Fin 20) [])))) minChunk
   \<and> handleAddChunk (Some (video_at (Fin 19))) (page_of (Fin 20) [])
       = (Alert ''Chunk too short!'', page_of (Fin 20) [])"
proof -
  let ?P = "page_of (Fin 20) [\<lparr>start = Fin 5, end' = Fin 15\<rparr>]" and ?Q = "page_of (Fin 20) []"
  have i: "intersects (candidate (video_at (Fin 12)) ?P) \<lparr>start = Fin 5, end' = Fin 15\<rparr>"
    by (simp add: intersects_def add_chunk_eval)
  then have h1: "(\<exists>c \<in> set (chunks ?P). intersects (candidate (video_at (Fin 12)) ?P) c)
      \<or> js_lt (js_sub (end' (candidate (video_at (Fin 12)) ?P))
                 (start (candidate (video_at (Fin 12)) ?P))) minChunk"
    by (simp add: page_of_def)
  have g1: "\<not> js_le (duration ?P) (Fin 0)" and g2: "\<not> js_le (duration ?Q) (Fin 0)"
    by (simp_all add: page_of_def)
  have e1: "(\<exists>c \<in> set (chunks ?P). intersects (candidate (video_at (Fin 12)) ?P) c)"
    using i by (simp add: page_of_def)
  have m: "js_lt (js_sub (end' (candidate (video_at (Fin 19)) ?Q))
                 (start (candidate (video_at (Fin 19)) ?Q))) minChunk"
    by (simp add: add_chunk_eval)
  then have h2: "(\<exists>c \<in> set (chunks ?Q). intersects (candidate (video_at (Fin 19)) ?Q) c)
      \<or> js_lt (js_sub (end' (candidate (video_at (Fin 19)) ?Q))
                 (start (candidate (video_at (Fin 19)) ?Q))) minChunk"
    by simp
  have e2: "\<not> (\<exists>c \<in> set (chunks ?Q). intersects (candidate (video_at (Fin 19)) ?Q) c)"
    by (simp add: page_of_def)
  have r1: "handleAddChunk (Some (video_at (Fin 12))) ?P = (Alert ''Chunk overlaps another!'', ?P)"
    using overlapping_or_short_candidate_rejected [OF h1] g1 e1
    by (simp add: prod_eq_iff)
  have r2: "handleAddChunk (Some (video_at (Fin 19))) ?Q = (Alert ''Chunk too short!'', ?Q)"
    using overlapping_or_short_candidate_rejected [OF h2] g2 e2
    by (simp add: prod_eq_iff)
  from i r1 m r2 show ?thesis by blast
qed

text \<open>
  C10. Without a video element, or with a working duration \<^verbatim>\<open><= 0\<close>, \<^verbatim>\<open>handleAddChunk\<close>
  returns at its guard: no alert is raised and the page is returned as it was.
\<close>

theorem addChunk_silent_without_duration:
  "videoRef = None \<or> js_le (duration p) (Fin 0) \<Longrightarrow> handleAddChunk videoRef p = (Returned, p)"
  by (cases videoRef) (auto simp: handleAddChunk_def)

theorem addChunk_silent_without_duration_witness:
  "js_le (duration initial_page) (Fin 0)
   \<and> handleAddChunk (Some (video_at (Fin 5))) initial_page = (Returned, initial_page)
   \<and> handleAddChunk None (page_of (Fin 20) []) = (Returned, page_of (Fin 20) [])"
proof -
  have g: "js_le (duration initial_page) (Fin 0)"
    by (simp add: initial_page_def)
  from g addChunk_silent_without_duration [of "Some (video_at (Fin 5))" initial_page]
    addChunk_silent_without_duration [of None "page_of (Fin 20) []"]
  show ?thesis by simp
qed


section \<open>Properties of the timeline click\<close>

lemma pixelToTime_Fin:
  assumes "0 < W"
  shows "pixelToTime (Fin x) (Fin W) (Fin D) = Fin (max 0 (min 1 (x / W)) * D)"
  using assms by (simp add: pixelToTime_def Let_def max_def min_def)

lemma js_mul_NaN_right: "js_mul a NaN = NaN"
  by (cases a) simp_all

lemma js_mul_PInf_right: "\<not> isFinite (js_mul a PInf)"
  by (cases a) simp_all

text \<open>
  C8, as the code has it. For a timeline of positive width \<open>W\<close> and a finite positive
  duration \<open>D\<close>, \<^verbatim>\<open>pixelToTime\<close> is the linear map \<^verbatim>\<open>clickX / W * D\<close> clamped to
  \<open>[0, D]\<close>: it is 0 at \<^verbatim>\<open>clickX = 0\<close>, \<open>D\<close> at \<^verbatim>\<open>clickX = W\<close>, and non-decreasing in
  \<^verbatim>\<open>clickX\<close>; the click handler moves the video to that time. When the duration is not a
  finite number \<^verbatim>\<open>> 0\<close> (zero, negative, \<^verbatim>\<open>NaN\<close> or infinite) the handler changes nothing.
\<close>

theorem pixelToTime_linear_clamped:
  "(0 < W \<and> 0 < D \<longrightarrow>
      pixelToTime (Fin x) (Fin W) (Fin D) = Fin (max 0 (min D (x / W * D)))
      \<and> pixelToTime (Fin 0) (Fin W) (Fin D) = Fin 0
      \<and> pixelToTime (Fin W) (Fin W) (Fin D) = Fin D
      \<and> (x \<le> y \<longrightarrow>
           js_le (pixelToTime (Fin x) (Fin W) (Fin D)) (pixelToTime (Fin y) (Fin W) (Fin D)))
      \<and> handleTimelineClick (Some \<lparr>rect_left = Fin l, rect_width = Fin W\<rparr>) (Some video)
           (p\<lparr>duration := Fin D\<rparr>) (Fin cx)
         = Some (video\<lparr>video_currentTime := pixelToTime (Fin (cx - l)) (Fin W) (Fin D)\<rparr>))
   \<and> (\<not> (isFinite (duration p) \<and> js_gt (duration p) (Fin 0)) \<longrightarrow>
         handleTimelineClick timelineRef videoRef p clientX = videoRef)"
proof (intro conjI impI)
  assume a: "0 < W \<and> 0 < D"
  then have W: "0 < W" and D: "0 < D" by simp_all
  have "max 0 (min 1 (x / W)) * D = max 0 (min D (x / W * D))"
  proof -
    have "max 0 (min 1 (x / W)) * D = max (0 * D) (min 1 (x / W) * D)"
      using D by (simp add: max_mult_distrib_right)
    also have "min 1 (x / W) * D = min (1 * D) (x / W * D)"
      using D by (simp add: min_mult_distrib_right)
    finally show ?thesis by simp
  qed
  with W show "pixelToTime (Fin x) (Fin W) (Fin D) = Fin (max 0 (min D (x / W * D)))"
    by (simp add: pixelToTime_Fin)
  from W show "pixelToTime (Fin 0) (Fin W) (Fin D) = Fin 0"
    by (simp add: pixelToTime_Fin)
  from W show "pixelToTime (Fin W) (Fin W) (Fin D) = Fin D"
    by (simp add: pixelToTime_Fin)
  from W D show "handleTimelineClick (Some \<lparr>rect_left = Fin l, rect_width = Fin W\<rparr>) (Some video)
           (p\<lparr>duration := Fin D\<rparr>) (Fin cx)
         = Some (video\<lparr>video_currentTime := pixelToTime (Fin (cx - l)) (Fin W) (Fin D)\<rparr>)"
    by (simp add: handleTimelineClick_def js_sub_def pixelToTime_Fin Let_def)
  assume xy: "x \<le> y"
  from W xy have "x / W \<le> y / W" by (simp add: divide_right_mono)
  then have "max 0 (min 1 (x / W)) \<le> max 0 (min 1 (y / W))" by auto
  with D have "max 0 (min 1 (x / W)) * D \<le> max 0 (min 1 (y / W)) * D"
    by (simp add: mult_right_mono)
  with W show "js_le (pixelToTime (Fin x) (Fin W) (Fin D)) (pixelToTime (Fin y) (Fin W) (Fin D))"
    by (simp add: pixelToTime_Fin)
next
  assume n: "\<not> (isFinite (duration p) \<and> js_gt (duration p) (Fin 0))"
  show "handleTimelineClick timelineRef videoRef p clientX = videoRef"
  proof (cases "duration p")
    case (Fin d)
    with n show ?thesis
      by (auto simp: handleTimelineClick_def js_gt_def split: option.splits)
  next
    case PInf
    then show ?thesis
      by (auto simp: handleTimelineClick_def pixelToTime_def Let_def js_mul_PInf_right
          split: option.splits)
  next
    case NInf
    then show ?thesis by (auto simp: handleTimelineClick_def split: option.splits)
  next
    case NaN
    then show ?thesis
      by (auto simp: handleTimelineClick_def pixelToTime_def Let_def js_mul_NaN_right
          split: option.splits)
  qed
qed

theorem pixelToTime_linear_clamped_witness:
  "pixelToTime (Fin 75) (Fin 300) (Fin 20) = Fin 5
   \<and> pixelToTime (Fin 0) (Fin 300) (Fin 20) = Fin 0
   \<and> pixelToTime (Fin 300) (Fin 300) (Fin 20) = Fin 20
   \<and> js_le (pixelToTime (Fin 75) (Fin 300) (Fin 20)) (pixelToTime (Fin 450) (Fin 300) (Fin 20))
   \<and> handleTimelineClick (Some \<lparr>rect_left = Fin 40, rect_width = Fin 300\<rparr>)
        (Some (video_at (Fin 0))) (page_of (Fin 20) []) (Fin 115) = Some (video_at (Fin 5))
   \<and> handleTimelineClick (Some \<lparr>rect_left = Fin 40, rect_width = Fin 300\<rparr>)
        (Some (video_at (Fin 0))) initial_page (Fin 115) = Some (video_at (Fin 0))
   \<and> handleTimelineClick (Some \<lparr>rect_left = Fin 40, rect_width = Fin 300\<rparr>)
        (Some (video_at (Fin 0))) (page_of PInf []) (Fin 115) = Some (video_at (Fin 0))"
proof -
  have h: "(0::real) < 300 \<and> (0::real) < 20" by simp
  have le: "(75::real) \<le> 450" by simp
  have g: "\<not> (isFinite (duration initial_page) \<and> js_gt (duration initial_page) (Fin 0))"
    by (simp add: initial_page_def js_gt_def)
  have i: "\<not> (isFinite (duration (page_of PInf [])) \<and> js_gt (duration (page_of PInf [])) (Fin 0))"
    by (simp add: page_of_def)
  have p: "(page_of (Fin 20) [])\<lparr>duration := Fin 20\<rparr> = page_of (Fin 20) []"
    by (simp add: page_of_def)
  note t = pixelToTime_linear_clamped
    [of 300 20 75 450 40 "video_at (Fin 0)" "page_of (Fin 20) []" 115 _ _ _]
  from t h have 1: "pixelToTime (Fin 75) (Fin 300) (Fin 20) = Fin 5" by simp
  from t h have 2: "pixelToTime (Fin 0) (Fin 300) (Fin 20) = Fin 0" by blast
  from t h have 3: "pixelToTime (Fin 300) (Fin 300) (Fin 20) = Fin 20" by blast
  from t h le
  have 4: "js_le (pixelToTime (Fin 75) (Fin 300) (Fin 20)) (pixelToTime (Fin 450) (Fin 300) (Fin 20))"
    by blast
  from t h p 1
  have 5: "handleTimelineClick (Some \<lparr>rect_left = Fin 40, rect_width = Fin 300\<rparr>)
        (Some (video_at (Fin 0))) (page_of (Fin 20) []) (Fin 115) = Some (video_at (Fin 5))"
    by (simp add: video_at_def)
  from g pixelToTime_linear_clamped
    [of _ _ _ _ _ _ initial_page _ "Some \<lparr>rect_left = Fin 40, rect_width = Fin 300\<rparr>"
        "Some (video_at (Fin 0))" "Fin 115"]
  have 6: "handleTimelineClick (Some \<lparr>rect_left = Fin 40, rect_width = Fin 300\<rparr>)
        (Some (video_at (Fin 0))) initial_page (Fin 115) = Some (video_at (Fin 0))"
    by blast
  from i pixelToTime_linear_clamped
    [of _ _ _ _ _ _ "page_of PInf []" _ "Some \<lparr>rect_left = Fin 40, rect_width = Fin 300\<rparr>"
        "Some (video_at (Fin 0))" "Fin 115"]
  have 7: "handleTimelineClick (Some \<lparr>rect_left = Fin 40, rect_width = Fin 300\<rparr>)
        (Some (video_at (Fin 0))) (page_of PInf []) (Fin 115) = Some (video_at (Fin 0))"
    by blast
  from 1 2 3 4 5 6 7 show ?thesis by blast
qed

text \<open>
  The claim C8 itself does not hold for every duration \<^verbatim>\<open>> 0\<close>. A time update whose
  seekable range ends at \<^verbatim>\<open>+Infinity\<close> stores that as the working duration (line 62);
  it is \<^verbatim>\<open>> 0\<close>, yet \<^verbatim>\<open>pixelToTime\<close> at \<^verbatim>\<open>clickX = 0\<close> is \<^verbatim>\<open>0 * Infinity = NaN\<close>, not 0.
\<close>

theorem pixelToTime_infinite_duration_counterexample:
  "duration (onTimeUpdate \<lparr>closure_duration = Fin 0\<rparr>
       ((video_at (Fin 1))\<lparr>video_seekable := [(Fin 0, PInf)]\<rparr>) initial_page) = PInf
   \<and> js_gt PInf (Fin 0)
   \<and> pixelToTime (Fin 0) (Fin 300) PInf = NaN
   \<and> pixelToTime (Fin 0) (Fin 300) PInf \<noteq> Fin 0"
  by (simp add: onTimeUpdate_def video_at_def initial_page_def pixelToTime_def js_gt_def Let_def)


section \<open>Properties of the render geometry\<close>

text \<open>
  C4. The claim: with a duration of 0 the playhead and the chunk projections render nothing
  or 0% instead of dividing by zero. The code divides: in the initial state (duration 0,
  position 0) the playhead's offset is \<^verbatim>\<open>NaN\<close>, at a later position it is infinite, and a
  chunk projected on a duration of 0 gets \<^verbatim>\<open>NaN\<close> and infinite percentages.
\<close>

theorem render_divides_by_zero_duration:
  "playhead (render_geometry initial_page) = NaN
   \<and> playhead (render_geometry (initial_page\<lparr>currentTime := Fin 3\<rparr>)) = PInf
   \<and> chunk_styles (render_geometry (page_of (Fin 0) [\<lparr>start = Fin 0, end' = Fin 10\<rparr>]))
       = [\<lparr>style_left = NaN, style_width = PInf\<rparr>]"
  by (simp add: render_geometry_def chunk_geometry_def initial_page_def page_of_def js_sub_def)


section \<open>Properties of seeking\<close>

lemma seek_run_append: "seek_run (es @ fs) s = seek_run fs (seek_run es s)"
  by (induction es arbitrary: s) simp_all

lemma seek_step_settled:
  "sk_timer s = None \<Longrightarrow> \<not> sk_listening s \<Longrightarrow> seek_step e s = s"
  by (cases e) simp_all

lemma seek_run_settled:
  "sk_timer s = None \<Longrightarrow> \<not> sk_listening s \<Longrightarrow> seek_run es s = s"
  by (induction es) (simp_all add: seek_step_settled)

lemma seek_run_waiting:
  assumes "Seeked \<notin> set es" and "elapsed es < r"
  shows "seek_run es (s\<lparr>sk_timer := Some r\<rparr>) = s\<lparr>sk_timer := Some (r - elapsed es)\<rparr>"
  using assms
proof (induction es arbitrary: r)
  case Nil
  then show ?case by simp
next
  case (Cons e es)
  then obtain n where e: "e = Elapse n" by (cases e) auto
  with Cons.prems have "n < r" and "elapsed es < r - n" and "Seeked \<notin> set es" by auto
  with Cons.IH [of "r - n"] e show ?case by simp
qed

lemma seekTo_waiting:
  assumes "Seeked \<notin> set es" and "elapsed es < 5000"
  shows "seek_run es (seekTo video time)
           = (seekTo video time)\<lparr>sk_timer := Some (5000 - elapsed es)\<rparr>"
proof -
  have "seekTo video time = (seekTo video time)\<lparr>sk_timer := Some 5000\<rparr>"
    by (simp add: seekTo_def)
  then have "seek_run es (seekTo video time)
               = seek_run es ((seekTo video time)\<lparr>sk_timer := Some 5000\<rparr>)"
    by simp
  also have "\<dots> = (seekTo video time)\<lparr>sk_timer := Some (5000 - elapsed es)\<rparr>"
    using assms by (rule seek_run_waiting)
  finally show ?thesis .
qed

lemma seeked_while_waiting:
  "seek_step Seeked ((seekTo video time)\<lparr>sk_timer := Some r\<rparr>) = seek_resolved video time"
  by (simp add: seekTo_def onSeeked_def remove_onSeeked_def settle_def seek_resolved_def Let_def)

lemma timeout_while_waiting:
  "r \<le> n \<Longrightarrow>
     seek_step (Elapse n) ((seekTo video time)\<lparr>sk_timer := Some r\<rparr>) = seek_timed_out video time"
  by (simp add: seekTo_def timeout_callback_def remove_onSeeked_def settle_def
      seek_timed_out_def Let_def)

text \<open>
  C9. \<^verbatim>\<open>seekTo(video, time)\<close> sets the position to \<open>time\<close> and arms a 5000 ms timer; its
  promise stays pending while less than 5000 ms have passed without a \<^verbatim>\<open>seeked\<close> event.
  A \<^verbatim>\<open>seeked\<close> event then resolves it; the timer running out rejects it with
  \<^verbatim>\<open>Seek timeout\<close>. In both outcomes \<^verbatim>\<open>onSeeked\<close> has been removed, the video is the
  original one at position \<open>time\<close>, and whatever happens later changes nothing: no second
  attempt is made.
\<close>

theorem seekTo_resolves_or_times_out:
  assumes "Seeked \<notin> set es" and "elapsed es < 5000"
  shows "sk_promise (seekTo video time) = Pending
     \<and> sk_timer (seekTo video time) = Some 5000
     \<and> video_currentTime (sk_video (seekTo video time)) = time
     \<and> sk_promise (seek_run es (seekTo video time)) = Pending
     \<and> seek_run (es @ Seeked # later) (seekTo video time) = seek_resolved video time
     \<and> (5000 \<le> elapsed es + n \<longrightarrow>
          seek_run (es @ Elapse n # later) (seekTo video time) = seek_timed_out video time)
     \<and> video_listeners (sk_video (seek_timed_out video time)) = video_listeners video
     \<and> video_currentTime (sk_video (seek_timed_out video time)) = time
     \<and> video_currentTime (sk_video (seek_resolved video time)) = time"
proof -
  have w: "seek_run es (seekTo video time)
             = (seekTo video time)\<lparr>sk_timer := Some (5000 - elapsed es)\<rparr>"
    using assms by (rule seekTo_waiting)
  have p: "sk_promise (seek_run es (seekTo video time)) = Pending"
    by (simp add: w) (simp add: seekTo_def)
  have r: "seek_run (es @ Seeked # later) (seekTo video time) = seek_resolved video time"
  proof -
    have "seek_run (es @ Seeked # later) (seekTo video time)
            = seek_run later (seek_step Seeked (seek_run es (seekTo video time)))"
      by (simp add: seek_run_append del: seek_step.simps)
    also have "\<dots> = seek_run later (seek_resolved video time)"
      by (simp only: w seeked_while_waiting)
    also have "\<dots> = seek_resolved video time"
      by (rule seek_run_settled) (simp_all add: seek_resolved_def)
    finally show ?thesis .
  qed
  have t: "seek_run (es @ Elapse n # later) (seekTo video time) = seek_timed_out video time"
    if "5000 \<le> elapsed es + n"
  proof -
    from that have le: "5000 - elapsed es \<le> n" by simp
    have "seek_run (es @ Elapse n # later) (seekTo video time)
            = seek_run later (seek_step (Elapse n) (seek_run es (seekTo video time)))"
      by (simp add: seek_run_append del: seek_step.simps)
    also have "\<dots> = seek_run later (seek_timed_out video time)"
      by (simp only: w timeout_while_waiting [OF le])
    also have "\<dots> = seek_timed_out video time"
      by (rule seek_run_settled) (simp_all add: seek_timed_out_def)
    finally show ?thesis .
  qed
  from p r t show ?thesis
    by (simp add: seekTo_def seek_timed_out_def seek_resolved_def)
qed

theorem seekTo_resolves_or_times_out_witness:
  "sk_promise (seek_run [Elapse 1200, Elapse 3799] (seekTo (video_at (Fin 0)) (Fin 4))) = Pending
   \<and> seek_run ([Elapse 1200, Elapse 3799] @ Seeked # [Elapse 9000, Seeked])
        (seekTo (video_at (Fin 0)) (Fin 4)) = seek_resolved (video_at (Fin 0)) (Fin 4)
   \<and> seek_run ([Elapse 1200, Elapse 3799] @ Elapse 1 # [Seeked, Elapse 9000])
        (seekTo (video_at (Fin 0)) (Fin 4)) = seek_timed_out (video_at (Fin 0)) (Fin 4)
   \<and> sk_video (seek_timed_out (video_at (Fin 0)) (Fin 4)) = video_at (Fin 4)"
proof -
  have a: "Seeked \<notin> set [Elapse 1200, Elapse 3799]" by simp
  have b: "elapsed [Elapse 1200, Elapse 3799] < 5000" by simp
  have c: "5000 \<le> elapsed [Elapse 1200, Elapse 3799] + 1" by simp
  have d: "sk_video (seek_timed_out (video_at (Fin 0)) (Fin 4)) = video_at (Fin 4)"
    by (simp add: seek_timed_out_def video_at_def)
  from seekTo_resolves_or_times_out [OF a b, of "video_at (Fin 0)" "Fin 4" "[Elapse 9000, Seeked]" 1]
    seekTo_resolves_or_times_out [OF a b, of "video_at (Fin 0)" "Fin 4" "[Seeked, Elapse 9000]" 1]
    c d
  show ?thesis by blast
qed


section \<open>Properties of thumbnail generation\<close>

lemma await_seekTo_eq:
  "await_seekTo video time d =
     (case d of None \<Rightarrow> Rejected ''Seek timeout''
        | Some n \<Rightarrow> if n < 5000 then Resolved else Rejected ''Seek timeout'',
      video\<lparr>video_currentTime := time\<rparr>)"
  by (cases d)
     (simp_all add: await_seekTo_def seekTo_def onSeeked_def timeout_callback_def
        remove_onSeeked_def settle_def Let_def)

lemma sample_eq:
  "sample env interval i st =
     \<lparr>ts_video = (ts_video st)\<lparr>video_currentTime := js_mul (Fin (real i)) interval\<rparr>,
      ts_thumbs = ts_thumbs st @ (case captured env i of None \<Rightarrow> [] | Some url \<Rightarrow> [url]),
      ts_seeks = ts_seeks st @ [js_mul (Fin (real i)) interval]\<rparr>"
  by (simp add: sample_def await_seekTo_eq captured_def Let_def split: option.splits)

text \<open>The loop in closed form: it leaves the video at the last timestamp.\<close>

lemma thumb_loop_eq:
  "thumb_loop env interval cnt i st =
     (if i < cnt
      then \<lparr>ts_video = (ts_video st)
                \<lparr>video_currentTime := js_mul (Fin (real (cnt - 1))) interval\<rparr>,
            ts_thumbs = ts_thumbs st @ List.map_filter (captured env) [i..<cnt],
            ts_seeks = ts_seeks st @ map (\<lambda>k. js_mul (Fin (real k)) interval) [i..<cnt]\<rparr>
      else st)"
proof (induction env interval cnt i st rule: thumb_loop.induct)
  case (1 env interval cnt i st)
  show ?case
  proof (cases "i < cnt")
    case False
    then show ?thesis by simp
  next
    case True
    note lt = this
    have step: "thumb_loop env interval cnt i st
                  = thumb_loop env interval cnt (Suc i) (sample env interval i st)"
      using lt by (subst thumb_loop.simps) simp
    show ?thesis
    proof (cases "Suc i < cnt")
      case True
      with lt "1.IH" [OF lt] show ?thesis
        unfolding step
        by (simp add: sample_eq upt_conv_Cons [OF lt] List.map_filter_simps
            del: thumb_loop.simps split: option.splits)
    next
      case False
      with lt have c: "cnt = Suc i" by simp
      with lt "1.IH" [OF lt] show ?thesis
        unfolding step
        by (simp add: sample_eq List.map_filter_simps del: thumb_loop.simps split: option.splits)
    qed
  qed
qed

lemma generateThumbnails_eq:
  "generateThumbnails ctx env video cnt =
     \<lparr>ts_video = video,
      ts_thumbs = (if ctx then List.map_filter (captured env) [0..<cnt] else []),
      ts_seeks = (if ctx then timestamps (video_duration video) cnt else [])\<rparr>"
  by (simp add: generateThumbnails_def thumb_loop_eq timestamps_def Let_def
      List.map_filter_simps del: thumb_loop.simps)

lemma timestamps_increasing:
  assumes "0 < D"
  shows "sorted_wrt js_lt (timestamps (Fin D) cnt)"
proof (cases "cnt = 0")
  case True
  then show ?thesis by (simp add: timestamps_def)
next
  case False
  with assms have "timestamps (Fin D) cnt = map (\<lambda>i. Fin (real i * (D / real cnt))) [0..<cnt]"
    by (simp add: timestamps_def)
  moreover have "real i * D / real cnt < real j * D / real cnt" if "i < j" for i j :: nat
  proof (rule divide_strict_right_mono)
    from that assms show "real i * D < real j * D" by simp
    from False show "0 < real cnt" by simp
  qed
  ultimately show ?thesis
    by (simp add: sorted_wrt_map sorted_wrt_iff_nth_less)
qed

text \<open>
  C5, as the code has it. When the canvas gives a 2D context, \<^verbatim>\<open>generateThumbnails\<close> seeks
  to exactly the timestamps \<^verbatim>\<open>t_i = i * (duration / count)\<close> for \<^verbatim>\<open>i\<close> in \<^verbatim>\<open>[0, count)\<close>,
  in this order, which is increasing for a finite positive duration; it returns, in order,
  the captures of the samples whose seek was answered in time and whose capture did not
  throw, so a failed sample is skipped alone and the result has at most \<^verbatim>\<open>count\<close>
  elements; \<^verbatim>\<open>count = 0\<close> gives the empty sequence and no seek. Without a 2D context it
  returns the empty sequence at once and seeks nowhere.
\<close>

theorem generateThumbnails_samples_timestamps:
  "ts_seeks (generateThumbnails True env video cnt) = timestamps (video_duration video) cnt
   \<and> ts_thumbs (generateThumbnails True env video cnt) = List.map_filter (captured env) [0..<cnt]
   \<and> length (ts_thumbs (generateThumbnails ctx env video cnt)) \<le> cnt
   \<and> (0 < D \<longrightarrow> sorted_wrt js_lt (timestamps (Fin D) cnt))
   \<and> ts_thumbs (generateThumbnails ctx env video 0) = []
   \<and> ts_seeks (generateThumbnails ctx env video 0) = []
   \<and> ts_thumbs (generateThumbnails False env video cnt) = []
   \<and> ts_seeks (generateThumbnails False env video cnt) = []"
proof -
  have len: "length (List.map_filter (captured env) [0..<cnt]) \<le> cnt"
    by (simp add: List.map_filter_def) (metis diff_zero length_filter_le length_upt)
  have sorted: "0 < D \<longrightarrow> sorted_wrt js_lt (timestamps (Fin D) cnt)"
    by (simp add: timestamps_increasing)
  have none: "timestamps (video_duration video) 0 = []"
    by (simp add: timestamps_def)
  from len have "length (ts_thumbs (generateThumbnails ctx env video cnt)) \<le> cnt"
    by (simp add: generateThumbnails_eq)
  with sorted none show ?thesis
    by (simp add: generateThumbnails_eq List.map_filter_simps)
qed

theorem generateThumbnails_samples_timestamps_witness:
  "ts_seeks (generateThumbnails True flaky_browser (video_at (Fin 7)) 4)
     = [Fin 0, Fin 5, Fin 10, Fin 15]
   \<and> ts_thumbs (generateThumbnails True flaky_browser (video_at (Fin 7)) 4)
     = [''data:image/jpeg;zero'', ''data:image/jpeg;three'']
   \<and> sorted_wrt js_lt (timestamps (Fin 20) 4)
   \<and> timestamps (Fin 30) 15
     = [Fin 0, Fin 2, Fin 4, Fin 6, Fin 8, Fin 10, Fin 12, Fin 14, Fin 16, Fin 18, Fin 20,
        Fin 22, Fin 24, Fin 26, Fin 28]"
proof -
  have d: "(0::real) < 20" by simp
  have t4: "timestamps (video_duration (video_at (Fin 7))) 4 = [Fin 0, Fin 5, Fin 10, Fin 15]"
    by (simp add: timestamps_def video_at_def upt_conv_Cons)
  have c4: "List.map_filter (captured flaky_browser) [0..<4]
              = [''data:image/jpeg;zero'', ''data:image/jpeg;three'']"
    by (simp add: List.map_filter_simps captured_def flaky_browser_def upt_conv_Cons)
  have t15: "timestamps (Fin 30) 15
     = [Fin 0, Fin 2, Fin 4, Fin 6, Fin 8, Fin 10, Fin 12, Fin 14, Fin 16, Fin 18, Fin 20,
        Fin 22, Fin 24, Fin 26, Fin 28]"
    by (simp add: timestamps_def upt_conv_Cons)
  from generateThumbnails_samples_timestamps [of flaky_browser "video_at (Fin 7)" 4 True 20]
    d t4 c4 t15
  show ?thesis by simp
qed

text \<open>
  The claim C5 itself does not hold for every call: without a 2D context no timestamp is
  sampled.
\<close>

theorem generateThumbnails_without_context_counterexample:
  "ts_seeks (generateThumbnails False steady_browser (video_at (Fin 7)) 4)
     \<noteq> timestamps (video_duration (video_at (Fin 7))) 4"
  by (simp add: generateThumbnails_def timestamps_def Let_def)

text \<open>
  C6. When \<^verbatim>\<open>generateThumbnails\<close> returns, the video's playback position is the one it
  had when the call began, and nothing else of the video has changed: the video is the one
  that was passed in, whichever samples succeeded or failed.
\<close>

theorem generateThumbnails_restores_video:
  "video_currentTime (ts_video (generateThumbnails ctx env video cnt)) = video_currentTime video
   \<and> ts_video (generateThumbnails ctx env video cnt) = video"
  by (simp add: generateThumbnails_eq)


section \<open>Properties of the duration resolver\<close>

text \<open>
  Read with the duration of the current render, the test of line 58 would keep an adopted
  duration.
\<close>

lemma onTimeUpdate_current_duration_kept:
  assumes "duration p = Fin d" and "d \<noteq> 0"
  shows "duration (onTimeUpdate \<lparr>closure_duration = duration p\<rparr> video p) = duration p"
  using assms by (simp add: onTimeUpdate_def Let_def)

text \<open>
  C7. The claim: once a finite positive duration has been adopted, a time update no longer
  replaces it by the end of the seekable range. In the code the handler tests the duration
  of the render that registered it, which is the initial 0: after \<^verbatim>\<open>loadedmetadata\<close> has
  adopted 20 seconds, the next \<^verbatim>\<open>timeupdate\<close> sets the duration to the end of the seekable
  range, 12 seconds.
\<close>

theorem timeupdate_overwrites_adopted_duration:
  "closure_duration (fst session_mounted) = Fin 0
   \<and> duration (snd session_loaded) = Fin 20
   \<and> duration (snd session_playing) = Fin 12"
proof -
  have m: "session_mounted =
      (\<lparr>closure_duration = Fin 0\<rparr>,
       unloaded_video\<lparr>video_listeners := {#(''loadedmetadata'', OnLoadedMetadata)#}
          + {#(''durationchange'', OnDurationChange)#} + {#(''timeupdate'', OnTimeUpdate)#}\<rparr>,
       initial_page)"
    by (simp add: session_mounted_def useEffect_videoUrl_def unloaded_video_def
        initial_page_def Let_def)
  have l: "duration (snd session_loaded) = Fin 20"
    and v: "video_seekable (fst session_loaded) = [(Fin 0, Fin 12)]"
    by (simp_all add: session_loaded_def m processThumbnails_def generateThumbnails_eq
        js_gt_def Let_def)
  have c: "closure_duration (fst session_mounted) = Fin 0"
    by (simp add: m)
  have "duration (snd session_playing) = Fin 12"
    by (simp add: session_playing_def m onTimeUpdate_def v js_gt_def Let_def)
  with c l show ?thesis by blast
qed

end
